theory Spec2Isabelle
  imports Main
begin

section \<open>C++ values shared by the examples\<close>

text \<open>
  The examples are C++ programs for POSIX systems, where an \<^verbatim>\<open>int\<close> has 32 bits. A
  C++ \<^verbatim>\<open>int\<close> is modelled as a HOL integer together with the largest value the type
  holds; the only arithmetic the examples do on an \<^verbatim>\<open>int\<close> is \<^verbatim>\<open>+= 1\<close>, and
  where that would leave the type the behaviour is undefined in C++, which the model
  returns as a value of type \<open>ub\<close>, as it does for a pointer to no object.
\<close>

definition INT_MAX :: int where
  "INT_MAX = 2147483647"

datatype ub = SignedOverflow | NullDeref

text \<open>What \<^verbatim>\<open>printf\<close> prints for \<^verbatim>\<open>%zu\<close> (\<open>dec\<close>) and for \<^verbatim>\<open>%i\<close> (\<open>show_int\<close>).\<close>

definition digit :: "nat \<Rightarrow> char" where
  "digit n = ''0123456789'' ! n"

fun dec :: "nat \<Rightarrow> string" where
  "dec n = (if n < 10 then [digit n] else dec (n div 10) @ [digit (n mod 10)])"

declare dec.simps [simp del]

definition show_int :: "int \<Rightarrow> string" where
  "show_int i = (if i < 0 then ''-'' @ dec (nat (- i)) else dec (nat i))"

text \<open>A string between two apostrophes, as the format \<^verbatim>\<open>'%s'\<close> prints it.\<close>

definition quoted :: "string \<Rightarrow> string" where
  "quoted s = [CHR 0x27] @ s @ [CHR 0x27]"

section \<open>The operating system the file wrappers run on\<close>

text \<open>
  \<^verbatim>\<open>open\<close>, \<^verbatim>\<open>close\<close>, \<^verbatim>\<open>read\<close>, \<^verbatim>\<open>errno\<close>, \<^verbatim>\<open>strerror\<close> and the two output
  streams belong to the platform, not to the repository. They are modelled as POSIX
  describes them, for a single-threaded process: a table of open descriptors, each with
  the bytes of its file that have not been read yet; \<^verbatim>\<open>open\<close> returns the lowest
  descriptor that is not open; \<^verbatim>\<open>close\<close> and \<^verbatim>\<open>read\<close> on a descriptor that is not
  open fail with \<^verbatim>\<open>EBADF\<close>. Every call is also recorded in \<open>calls\<close>, with its result, and
  everything printed in \<open>console\<close>, in program order. (\<^verbatim>\<open>EIO\<close> is an \<open>errno\<close> that
  this platform never sets; it stands for the other ways a call can fail.)
\<close>

datatype errno_t = E0 | ENOENT | EBADF | EMFILE | EIO

fun strerror :: "errno_t \<Rightarrow> string" where
  "strerror E0 = ''Success''"
| "strerror ENOENT = ''No such file or directory''"
| "strerror EBADF = ''Bad file descriptor''"
| "strerror EMFILE = ''Too many open files''"
| "strerror EIO = ''Input/output error''"

datatype stream = Stdout | Stderr

datatype syscall = Open string int | Close int int | Read int int

record world =
  fs :: "string \<rightharpoonup> string"
  fdt :: "int \<rightharpoonup> string"
  nofile :: nat
  errno :: errno_t
  calls :: "syscall list"
  console :: "(stream \<times> string) list"

definition lowest_free :: "world \<Rightarrow> int option" where
  "lowest_free w = find (\<lambda>i. fdt w i = None) (map int [0..<nofile w])"

definition sys_open :: "world \<Rightarrow> string \<Rightarrow> int \<times> world" where
  "sys_open w path =
     (case fs w path of
        None \<Rightarrow> (- 1, w\<lparr>errno := ENOENT, calls := calls w @ [Open path (- 1)]\<rparr>)
      | Some bytes \<Rightarrow>
          (case lowest_free w of
             None \<Rightarrow> (- 1, w\<lparr>errno := EMFILE, calls := calls w @ [Open path (- 1)]\<rparr>)
           | Some i \<Rightarrow> (i, w\<lparr>fdt := (fdt w)(i \<mapsto> bytes), calls := calls w @ [Open path i]\<rparr>)))"

definition sys_close :: "world \<Rightarrow> int \<Rightarrow> int \<times> world" where
  "sys_close w d =
     (if d < 0 \<or> fdt w d = None
      then (- 1, w\<lparr>errno := EBADF, calls := calls w @ [Close d (- 1)]\<rparr>)
      else (0, w\<lparr>fdt := (fdt w)(d := None), calls := calls w @ [Close d 0]\<rparr>))"

definition sys_read :: "world \<Rightarrow> int \<Rightarrow> nat \<Rightarrow> int \<times> string \<times> world" where
  "sys_read w d nbytes =
     (case (if d < 0 then None else fdt w d) of
        None \<Rightarrow> (- 1, [], w\<lparr>errno := EBADF, calls := calls w @ [Read d (- 1)]\<rparr>)
      | Some bytes \<Rightarrow>
          (int (length (take nbytes bytes)), take nbytes bytes,
           w\<lparr>fdt := (fdt w)(d \<mapsto> drop nbytes bytes),
             calls := calls w @ [Read d (int (length (take nbytes bytes)))]\<rparr>))"

definition printf :: "world \<Rightarrow> string \<Rightarrow> world" where
  "printf w s = w\<lparr>console := console w @ [(Stdout, s)]\<rparr>"

definition fprintf_stderr :: "world \<Rightarrow> string \<Rightarrow> world" where
  "fprintf_stderr w s = w\<lparr>console := console w @ [(Stderr, s)]\<rparr>"

text \<open>The descriptors \<^verbatim>\<open>close\<close> was called with.\<close>

fun close_fds :: "syscall list \<Rightarrow> int list" where
  "close_fds [] = []"
| "close_fds (Close d r # cs) = d # close_fds cs"
| "close_fds (c # cs) = close_fds cs"

text \<open>
  \<^verbatim>\<open>char buf[nbytes] = {}\<close> filled by \<^verbatim>\<open>read\<close>: the bytes read, then the zeros the
  array was initialised with.
\<close>

definition filled_buf :: "nat \<Rightarrow> string \<Rightarrow> string" where
  "filled_buf nbytes bytes = bytes @ replicate (nbytes - length bytes) (CHR 0x00)"

text \<open>
  A member function of a wrapper class makes one platform call. It is given with that
  call as a parameter, the \<^verbatim>\<open>open\<close>, \<^verbatim>\<open>read\<close> or \<^verbatim>\<open>close\<close> of any platform,
  which may return any value and leave any \<open>errno\<close>, and then on the platform above:
  \<open>NaiveFile_dtor\<close> is \<open>NaiveFile_dtor_on sys_close\<close>.
\<close>

type_synonym open_call = "world \<Rightarrow> string \<Rightarrow> int \<times> world"
type_synonym read_call = "world \<Rightarrow> int \<Rightarrow> nat \<Rightarrow> int \<times> string \<times> world"
type_synonym close_call = "world \<Rightarrow> int \<Rightarrow> int \<times> world"

section \<open>NaiveFile\<close>

text \<open>
  The class of \<^verbatim>\<open>naive.hpp\<close>: one member, \<^verbatim>\<open>int fd\<close>; a constructor, a destructor
  and \<open>read_1024\<close>, and the copy operations the compiler adds, which copy \<open>fd\<close>. A
  member function takes the world it runs in and returns the world it leaves.
\<close>

record NaiveFile =
  fd :: int

definition NaiveFile_ctor_on :: "open_call \<Rightarrow> world \<Rightarrow> string \<Rightarrow> NaiveFile \<times> world" where
  "NaiveFile_ctor_on os_open w path =
     (let (r, w1) = os_open w path;
          w2 = printf w1 (''(fd '' @ show_int r @ '') open '' @ path @ ''\<newline>'')
      in (\<lparr>NaiveFile.fd = r\<rparr>, w2))"

definition NaiveFile_ctor :: "world \<Rightarrow> string \<Rightarrow> NaiveFile \<times> world" where
  "NaiveFile_ctor = NaiveFile_ctor_on sys_open"

definition NaiveFile_dtor_on :: "close_call \<Rightarrow> world \<Rightarrow> NaiveFile \<Rightarrow> world" where
  "NaiveFile_dtor_on os_close w this =
     (if NaiveFile.fd this \<ge> 0 then
        (let w1 = printf w (''(fd '' @ show_int (NaiveFile.fd this) @ '') ~NaiveFile closing\<newline>'');
             (r, w2) = os_close w1 (NaiveFile.fd this)
         in if r < 0
            then fprintf_stderr w2
                   (''  (fd '' @ show_int (NaiveFile.fd this) @ '') Couldn't close file: ''
                    @ quoted (strerror (errno w2)) @ ''\<newline>'')
            else w2)
      else w)"

definition NaiveFile_dtor :: "world \<Rightarrow> NaiveFile \<Rightarrow> world" where
  "NaiveFile_dtor = NaiveFile_dtor_on sys_close"

definition NaiveFile_read_1024_on :: "read_call \<Rightarrow> world \<Rightarrow> NaiveFile \<Rightarrow> string \<times> world" where
  "NaiveFile_read_1024_on os_read w this =
     (if NaiveFile.fd this < 0 then ([], w)
      else
        (let nbytes = 1024;
             (n, bytes, w1) = os_read w (NaiveFile.fd this) nbytes;
             buf = filled_buf nbytes bytes
         in if n \<le> 0 then ([], w1) else (take (nat n) buf, w1)))"

definition NaiveFile_read_1024 :: "world \<Rightarrow> NaiveFile \<Rightarrow> string \<times> world" where
  "NaiveFile_read_1024 = NaiveFile_read_1024_on sys_read"

text \<open>
  \<^verbatim>\<open>accidental_copy<NaiveFile>\<close>, the only instance of the template the program
  compiles. Its parameter \<open>file\<close> is an object of its own (the caller copied into it);
  it is destroyed when the function returns.
\<close>

definition accidental_copy_on :: "read_call \<Rightarrow> close_call \<Rightarrow> world \<Rightarrow> NaiveFile \<Rightarrow> world" where
  "accidental_copy_on os_read os_close w file =
     (let (content, w1) = NaiveFile_read_1024_on os_read w file;
          w2 = (if length content \<ge> 1024
                then printf w1 ''File is bigger than 1KB\<newline>''
                else printf w1 (''File is '' @ dec (length content) @ '' bytes long\<newline>''))
      in NaiveFile_dtor_on os_close w2 file)"

definition accidental_copy :: "world \<Rightarrow> NaiveFile \<Rightarrow> world" where
  "accidental_copy = accidental_copy_on sys_read sys_close"

section \<open>SafeFile\<close>

text \<open>
  The class of \<^verbatim>\<open>safe.hpp\<close> and \<^verbatim>\<open>safe.cpp\<close>. Its copy operations are deleted: the
  model has no function that makes a second object from a \<open>SafeFile\<close>.
\<close>

record SafeFile =
  fd :: int

definition SafeFile_ctor_on :: "open_call \<Rightarrow> world \<Rightarrow> string \<Rightarrow> SafeFile \<times> world" where
  "SafeFile_ctor_on os_open w path =
     (let (r, w1) = os_open w path
      in (\<lparr>SafeFile.fd = r\<rparr>, w1))"

definition SafeFile_ctor :: "world \<Rightarrow> string \<Rightarrow> SafeFile \<times> world" where
  "SafeFile_ctor = SafeFile_ctor_on sys_open"

definition SafeFile_dtor_on :: "close_call \<Rightarrow> world \<Rightarrow> SafeFile \<Rightarrow> world" where
  "SafeFile_dtor_on os_close w this =
     (if SafeFile.fd this \<ge> 0 then
        (let w1 = printf w ''~SafeFile closing file\<newline>'';
             (r, w2) = os_close w1 (SafeFile.fd this)
         in if r < 0
            then fprintf_stderr w2
                   (''  Couldn't close file: '' @ quoted (strerror (errno w2)) @ ''\<newline>'')
            else w2)
      else w)"

definition SafeFile_dtor :: "world \<Rightarrow> SafeFile \<Rightarrow> world" where
  "SafeFile_dtor = SafeFile_dtor_on sys_close"

definition SafeFile_read_1024_on :: "read_call \<Rightarrow> world \<Rightarrow> SafeFile \<Rightarrow> string \<times> world" where
  "SafeFile_read_1024_on os_read w this =
     (if SafeFile.fd this < 0 then ([], w)
      else
        (let nbytes = 1024;
             (n, bytes, w1) = os_read w (SafeFile.fd this) nbytes;
             buf = filled_buf nbytes bytes
         in if n \<le> 0 then ([], w1) else (take (nat n) buf, w1)))"

definition SafeFile_read_1024 :: "world \<Rightarrow> SafeFile \<Rightarrow> string \<times> world" where
  "SafeFile_read_1024 = SafeFile_read_1024_on sys_read"

section \<open>FileWrapper\<close>

text \<open>
  The class of \<^verbatim>\<open>final.hpp\<close>, with the member functions of its implementation file:
  copy operations deleted, move operations written by hand.
\<close>

record FileWrapper =
  fd :: int

definition FileWrapper_ctor_on :: "open_call \<Rightarrow> world \<Rightarrow> string \<Rightarrow> FileWrapper \<times> world" where
  "FileWrapper_ctor_on os_open w path =
     (let (r, w1) = os_open w path
      in (\<lparr>FileWrapper.fd = r\<rparr>, w1))"

definition FileWrapper_ctor :: "world \<Rightarrow> string \<Rightarrow> FileWrapper \<times> world" where
  "FileWrapper_ctor = FileWrapper_ctor_on sys_open"

definition FileWrapper_dtor_on :: "close_call \<Rightarrow> world \<Rightarrow> FileWrapper \<Rightarrow> world" where
  "FileWrapper_dtor_on os_close w this =
     (if FileWrapper.fd this \<ge> 0 then
        (let (r, w1) = os_close w (FileWrapper.fd this)
         in if r < 0
            then fprintf_stderr w1
                   (''  Couldn't close file: '' @ quoted (strerror (errno w1)) @ ''\<newline>'')
            else w1)
      else w)"

definition FileWrapper_dtor :: "world \<Rightarrow> FileWrapper \<Rightarrow> world" where
  "FileWrapper_dtor = FileWrapper_dtor_on sys_close"

definition FileWrapper_read_1024_on :: "read_call \<Rightarrow> world \<Rightarrow> FileWrapper \<Rightarrow> string \<times> world" where
  "FileWrapper_read_1024_on os_read w this =
     (if FileWrapper.fd this < 0 then ([], w)
      else
        (let nbytes = 1024;
             (n, bytes, w1) = os_read w (FileWrapper.fd this) nbytes;
             buf = filled_buf nbytes bytes
         in if n \<le> 0 then ([], w1) else (take (nat n) buf, w1)))"

definition FileWrapper_read_1024 :: "world \<Rightarrow> FileWrapper \<Rightarrow> string \<times> world" where
  "FileWrapper_read_1024 = FileWrapper_read_1024_on sys_read"

text \<open>
  The move operations take a reference to another \<^verbatim>\<open>FileWrapper\<close> and write to both
  objects, so the objects live in a store, addressed by where they are: \<open>this\<close> and
  \<open>wrapper\<close> may be the same address. The constructor writes the member \<open>fd\<close> of
  the object at \<open>this\<close>, whatever the storage held before; the assignment needs an object
  at \<open>this\<close>. \<open>None\<close> is returned for a reference to no object.
\<close>

type_synonym objects = "nat \<rightharpoonup> FileWrapper"

definition FileWrapper_move_ctor :: "objects \<Rightarrow> nat \<Rightarrow> nat \<Rightarrow> objects option" where
  "FileWrapper_move_ctor S this wrapper =
     (case S wrapper of
        None \<Rightarrow> None
      | Some src \<Rightarrow>
          (let S1 = S(this \<mapsto> \<lparr>FileWrapper.fd = FileWrapper.fd src\<rparr>)
           in Some (S1(wrapper := map_option (\<lambda>x. x\<lparr>FileWrapper.fd := - 1\<rparr>) (S1 wrapper)))))"

definition FileWrapper_move_assign :: "objects \<Rightarrow> nat \<Rightarrow> nat \<Rightarrow> objects option" where
  "FileWrapper_move_assign S this wrapper =
     (case (S this, S wrapper) of
        (Some dst, Some src) \<Rightarrow>
          (let S1 = S(this \<mapsto> dst\<lparr>FileWrapper.fd := FileWrapper.fd src\<rparr>)
           in Some (S1(wrapper := map_option (\<lambda>x. x\<lparr>FileWrapper.fd := - 1\<rparr>) (S1 wrapper))))
      | _ \<Rightarrow> None)"

section \<open>The program of the RAII essay\<close>

text \<open>
  \<^verbatim>\<open>main\<close> runs three blocks, one per wrapper class, on the file named by
  \<^verbatim>\<open>__FILE__\<close> (here \<open>filename\<close>). Each block is given with the objects that are alive
  after each of its steps, outermost first: a by-value parameter is alive during the
  call, a local until the closing brace, and locals are destroyed in reverse order.
  An initialisation \<^verbatim>\<open>T x = T(filename)\<close> constructs \<open>x\<close> in place, with no temporary
  (the rule of C++17, without which the SafeFile and FileWrapper lines, whose copy
  constructors are deleted, would not compile); \<^verbatim>\<open>auto file2 = naive_file\<close> and passing
  \<open>naive_file\<close> by value copy it.
\<close>

definition naive_block :: "world \<Rightarrow> string \<Rightarrow> world \<times> NaiveFile list list" where
  "naive_block w filename =
     (let (naive_file, w1) = NaiveFile_ctor w filename;
          live1 = [naive_file];
          file = naive_file;
          live2 = [naive_file, file];
          w2 = accidental_copy w1 file;
          live3 = [naive_file];
          file2 = naive_file;
          live4 = [naive_file, file2];
          w3 = NaiveFile_dtor w2 file2;
          live5 = [naive_file];
          w4 = NaiveFile_dtor w3 naive_file;
          live6 = []
      in (w4, [live1, live2, live3, live4, live5, live6]))"

definition safe_block :: "world \<Rightarrow> string \<Rightarrow> world \<times> SafeFile list list" where
  "safe_block w filename =
     (let (safe_file, w1) = SafeFile_ctor w filename;
          live1 = [safe_file];
          w2 = SafeFile_dtor w1 safe_file;
          live2 = []
      in (w2, [live1, live2]))"

definition final_block :: "world \<Rightarrow> string \<Rightarrow> world \<times> FileWrapper list list" where
  "final_block w filename =
     (let (file, w1) = FileWrapper_ctor w filename;
          live1 = [file];
          w2 = FileWrapper_dtor w1 file;
          live2 = []
      in (w2, [live1, live2]))"


text \<open>No two of the live objects hold the same descriptor \<open>\<ge> 0\<close>.\<close>

definition single_owner :: "int list \<Rightarrow> bool" where
  "single_owner fds = distinct (filter (\<lambda>d. 0 \<le> d) fds)"

text \<open>
  The trace the essay prints for the NaiveFile program, for the descriptor and the path
  it shows; the lines that start with two spaces are the ones written to
  \<^verbatim>\<open>stderr\<close>.
\<close>

definition documented_trace :: "(stream \<times> string) list" where
  "documented_trace =
     [(Stdout, ''(fd 3) open main.cpp\<newline>''),
      (Stdout, ''(fd 3) ~NaiveFile closing\<newline>''),
      (Stdout, ''(fd 3) ~NaiveFile closing\<newline>''),
      (Stderr, ''  (fd 3) Couldn't close file: '' @ quoted ''Bad file descriptor''
               @ ''\<newline>''),
      (Stdout, ''(fd 3) ~NaiveFile closing\<newline>''),
      (Stderr, ''  (fd 3) Couldn't close file: '' @ quoted ''Bad file descriptor''
               @ ''\<newline>'')]"

text \<open>
  A process as a shell starts it: descriptors 0, 1 and 2 open on the terminal, and the
  source file in the working directory.
\<close>

definition w0 :: world where
  "w0 = \<lparr>fs = [''main.cpp'' \<mapsto> ''int main() {}''],
         fdt = [0 \<mapsto> [], 1 \<mapsto> [], 2 \<mapsto> []],
         nofile = 8, errno = E0, calls = [], console = []\<rparr>"

section \<open>The smart-pointer examples\<close>

text \<open>
  A \<^verbatim>\<open>shared_ptr<T>\<close>, and a reference to a \<^verbatim>\<open>T\<close>, is the address of an object in
  a heap of \<^verbatim>\<open>T\<close> objects; copies of a pointer are the same address. \<open>make_shared\<close>
  allocates at the end of the heap. An address outside the heap is a pointer to no
  object; going through it is undefined behaviour.
\<close>

type_synonym 'a heap = "'a list"

definition deref :: "'a heap \<Rightarrow> nat \<Rightarrow> 'a option" where
  "deref h p = (if p < length h then Some (h ! p) else None)"

definition make_shared :: "'a heap \<Rightarrow> 'a \<Rightarrow> nat \<times> 'a heap" where
  "make_shared h v = (length h, h @ [v])"

text \<open>
  The loop of \<^verbatim>\<open>count_bad\<close>: \<open>it\<close> is the position of the iterator, and
  \<^verbatim>\<open>it != s->end()\<close> is \<open>it < length str\<close> for an iterator that starts at
  \<^verbatim>\<open>begin()\<close> and moves one step at a time. \<^verbatim>\<open>count += 1\<close> comes before the write
  through the iterator, as in the source.
\<close>

function count_bad_loop ::
  "string heap \<Rightarrow> nat \<Rightarrow> char \<Rightarrow> nat \<Rightarrow> int \<Rightarrow> ub + int \<times> string heap" where
  "count_bad_loop h s d it count =
     (case deref h s of
        None \<Rightarrow> Inl NullDeref
      | Some str \<Rightarrow>
          if it < length str then
            (if str ! it = d then
               (if count = INT_MAX then Inl SignedOverflow
                else count_bad_loop (h[s := str[it := CHR ''*'']]) s d (it + 1) (count + 1))
             else count_bad_loop h s d (it + 1) count)
          else Inr (count, h))"
  by pat_completeness auto
termination
  by (relation "measure (\<lambda>(h, s, d, it, count).
          (case deref h s of None \<Rightarrow> 0 | Some str \<Rightarrow> length str) - it)")
     (auto simp: deref_def split: if_splits)

declare count_bad_loop.simps [simp del]

definition count_bad :: "string heap \<Rightarrow> nat \<Rightarrow> char \<Rightarrow> ub + int \<times> string heap" where
  "count_bad h s d = count_bad_loop h s d 0 0"

text \<open>
  \<^verbatim>\<open>count_good\<close> takes a reference to the string. Its loop has no write; the heap is
  passed through it as it is.
\<close>

function count_good_loop ::
  "string heap \<Rightarrow> nat \<Rightarrow> char \<Rightarrow> nat \<Rightarrow> int \<Rightarrow> ub + int \<times> string heap" where
  "count_good_loop h s d it count =
     (case deref h s of
        None \<Rightarrow> Inl NullDeref
      | Some str \<Rightarrow>
          if it < length str then
            (if str ! it = d then
               (if count = INT_MAX then Inl SignedOverflow
                else count_good_loop h s d (it + 1) (count + 1))
             else count_good_loop h s d (it + 1) count)
          else Inr (count, h))"
  by pat_completeness auto
termination
  by (relation "measure (\<lambda>(h, s, d, it, count).
          (case deref h s of None \<Rightarrow> 0 | Some str \<Rightarrow> length str) - it)")
     (auto simp: deref_def split: if_splits)

declare count_good_loop.simps [simp del]

definition count_good :: "string heap \<Rightarrow> nat \<Rightarrow> char \<Rightarrow> ub + int \<times> string heap" where
  "count_good h s d = count_good_loop h s d 0 0"


text \<open>
  \<^verbatim>\<open>Config\<close> and \<^verbatim>\<open>ConfigWatcher\<close> of \<^verbatim>\<open>interfaces.hpp\<close>. The watcher holds a
  \<^verbatim>\<open>shared_ptr<Config>\<close>; \<open>get_config\<close> returns that pointer, as a
  \<^verbatim>\<open>shared_ptr<const Config>\<close>.
\<close>

record Config =
  hostname :: string
  port :: int
  url :: string

record ConfigWatcher =
  config :: nat

definition ConfigWatcher_ctor :: "Config heap \<Rightarrow> ConfigWatcher \<times> Config heap" where
  "ConfigWatcher_ctor h =
     (let (p, h1) = make_shared h \<lparr>hostname = ''localhost'', port = 80, url = ''/index.html''\<rparr>
      in (\<lparr>config = p\<rparr>, h1))"

definition get_config :: "ConfigWatcher \<Rightarrow> nat" where
  "get_config this = config this"

definition update_config :: "Config heap \<Rightarrow> ConfigWatcher \<Rightarrow> ub + Config heap" where
  "update_config h this =
     (case deref h (config this) of
        None \<Rightarrow> Inl NullDeref
      | Some c \<Rightarrow>
          if port c = INT_MAX then Inl SignedOverflow
          else Inr (h[config this := c\<lparr>port := port c + 1\<rparr>]))"


text \<open>\<open>update_config\<close> called \<open>k\<close> times in a row on the same watcher.\<close>

fun update_config_times :: "nat \<Rightarrow> Config heap \<Rightarrow> ConfigWatcher \<Rightarrow> ub + Config heap" where
  "update_config_times 0 h this = Inr h"
| "update_config_times (Suc k) h this =
     (case update_config h this of
        Inl e \<Rightarrow> Inl e
      | Inr h1 \<Rightarrow> update_config_times k h1 this)"

text \<open>A string with every occurrence of \<open>d\<close> overwritten by \<^verbatim>\<open>'*'\<close>.\<close>

definition starred :: "char \<Rightarrow> string \<Rightarrow> string" where
  "starred d str = map (\<lambda>x. if x = d then CHR ''*'' else x) str"


section \<open>Facts about the platform calls\<close>

lemma close_fds_append: "close_fds (xs @ ys) = close_fds xs @ close_fds ys"
  by (induction xs rule: close_fds.induct) simp_all

lemma printf_fields [simp]:
  "calls (printf w s) = calls w"
  "fdt (printf w s) = fdt w"
  "errno (printf w s) = errno w"
  "fs (printf w s) = fs w"
  "nofile (printf w s) = nofile w"
  "console (printf w s) = console w @ [(Stdout, s)]"
  by (simp_all add: printf_def)

lemma fprintf_stderr_fields [simp]:
  "calls (fprintf_stderr w s) = calls w"
  "fdt (fprintf_stderr w s) = fdt w"
  "errno (fprintf_stderr w s) = errno w"
  "fs (fprintf_stderr w s) = fs w"
  "nofile (fprintf_stderr w s) = nofile w"
  "console (fprintf_stderr w s) = console w @ [(Stderr, s)]"
  by (simp_all add: fprintf_stderr_def)

section \<open>The destructors\<close>

text \<open>
  C2. Each of the three destructors calls \<^verbatim>\<open>close\<close> exactly when the object's \<open>fd\<close> is
  \<open>\<ge> 0\<close>, with that descriptor, and makes no other call: the calls of a destructor are
  one \<open>Close\<close> of \<open>fd\<close> (with the result the platform gave) if \<open>0 \<le> fd\<close>, and none
  otherwise. So no destructor calls \<^verbatim>\<open>close\<close> with a negative descriptor.
\<close>

theorem destructors_close_iff_fd_nonneg:
  "calls (NaiveFile_dtor w n) =
     calls w @ (if 0 \<le> NaiveFile.fd n
                then [Close (NaiveFile.fd n) (if fdt w (NaiveFile.fd n) = None then - 1 else 0)]
                else [])
   \<and> calls (SafeFile_dtor w s) =
     calls w @ (if 0 \<le> SafeFile.fd s
                then [Close (SafeFile.fd s) (if fdt w (SafeFile.fd s) = None then - 1 else 0)]
                else [])
   \<and> calls (FileWrapper_dtor w f) =
     calls w @ (if 0 \<le> FileWrapper.fd f
                then [Close (FileWrapper.fd f) (if fdt w (FileWrapper.fd f) = None then - 1 else 0)]
                else [])"
  by (simp add: NaiveFile_dtor_def NaiveFile_dtor_on_def SafeFile_dtor_def SafeFile_dtor_on_def FileWrapper_dtor_def FileWrapper_dtor_on_def sys_close_def Let_def)

text \<open>
  In the run from the shell: descriptor 3 is not open (the call is made and fails), \<open>-1\<close>
  is no descriptor (no call), descriptor 2 is open (the call is made and succeeds).
\<close>

theorem destructors_close_iff_fd_nonneg_witness:
  "calls (NaiveFile_dtor w0 \<lparr>NaiveFile.fd = 3\<rparr>) = [Close 3 (- 1)]
   \<and> calls (SafeFile_dtor w0 \<lparr>SafeFile.fd = - 1\<rparr>) = []
   \<and> calls (FileWrapper_dtor w0 \<lparr>FileWrapper.fd = 2\<rparr>) = [Close 2 0]"
  using destructors_close_iff_fd_nonneg
    [of w0 "\<lparr>NaiveFile.fd = 3\<rparr>" "\<lparr>SafeFile.fd = - 1\<rparr>" "\<lparr>FileWrapper.fd = 2\<rparr>"]
  by (simp add: w0_def)

section \<open>The counting loops\<close>

lemma deref_update_same: "p < length h \<Longrightarrow> deref (h[p := v]) p = Some v"
  by (simp add: deref_def)

lemma deref_SomeD: "deref h p = Some v \<Longrightarrow> p < length h \<and> h ! p = v"
  by (auto simp: deref_def split: if_splits)

lemma count_bad_loop_spec:
  "deref h p = Some str \<Longrightarrow> it \<le> length str \<Longrightarrow> c \<le> INT_MAX \<Longrightarrow>
   count_bad_loop h p d it c =
     (if INT_MAX < c + int (count_list (drop it str) d) then Inl SignedOverflow
      else Inr (c + int (count_list (drop it str) d),
                h[p := take it str @ starred d (drop it str)]))"
proof (induction "length str - it" arbitrary: h str it c)
  case 0
  then have "it = length str" by simp
  moreover from "0.prems"(1) have "h[p := str] = h"
    by (auto dest!: deref_SomeD)
  ultimately show ?case
    using "0.prems" by (subst count_bad_loop.simps) (simp add: starred_def)
next
  case (Suc n)
  then have lt: "it < length str" by simp
  then have dr: "drop it str = str ! it # drop (Suc it) str"
    by (simp add: Cons_nth_drop_Suc)
  from Suc.prems(1) have p: "p < length h" "h ! p = str"
    by (auto dest!: deref_SomeD)
  show ?case
  proof (cases "str ! it = d")
    case False
    have "count_bad_loop h p d it c = count_bad_loop h p d (it + 1) c"
      using Suc.prems lt False by (subst count_bad_loop.simps) simp
    also have "\<dots> =
      (if INT_MAX < c + int (count_list (drop (it + 1) str) d) then Inl SignedOverflow
       else Inr (c + int (count_list (drop (it + 1) str) d),
                 h[p := take (it + 1) str @ starred d (drop (it + 1) str)]))"
      using Suc.hyps(2) Suc.prems lt by (intro Suc.hyps(1)) simp_all
    finally show ?thesis
      using False lt by (simp add: dr starred_def take_Suc_conv_app_nth)
  next
    case True
    show ?thesis
    proof (cases "c = INT_MAX")
      case True
      then show ?thesis
        using Suc.prems lt \<open>str ! it = d\<close> by (subst count_bad_loop.simps) (simp add: dr)
    next
      case False
      let ?str = "str[it := CHR ''*'']"
      let ?h = "h[p := ?str]"
      have "count_bad_loop h p d it c = count_bad_loop ?h p d (it + 1) (c + 1)"
        using Suc.prems lt True False by (subst count_bad_loop.simps) simp
      also have "\<dots> =
        (if INT_MAX < (c + 1) + int (count_list (drop (it + 1) ?str) d) then Inl SignedOverflow
         else Inr ((c + 1) + int (count_list (drop (it + 1) ?str) d),
                   ?h[p := take (it + 1) ?str @ starred d (drop (it + 1) ?str)]))"
        using Suc.hyps(2) Suc.prems lt False p
        by (intro Suc.hyps(1)) (simp_all add: deref_update_same)
      finally show ?thesis
        using True lt by (simp add: dr starred_def take_Suc_conv_app_nth)
    qed
  qed
qed

lemma count_good_loop_spec:
  "deref h p = Some str \<Longrightarrow> it \<le> length str \<Longrightarrow> c \<le> INT_MAX \<Longrightarrow>
   count_good_loop h p d it c =
     (if INT_MAX < c + int (count_list (drop it str) d) then Inl SignedOverflow
      else Inr (c + int (count_list (drop it str) d), h))"
proof (induction "length str - it" arbitrary: it c)
  case 0
  then show ?case by (subst count_good_loop.simps) simp
next
  case (Suc n)
  then have lt: "it < length str" by simp
  then have dr: "drop it str = str ! it # drop (Suc it) str"
    by (simp add: Cons_nth_drop_Suc)
  show ?case
  proof (cases "str ! it = d \<and> c = INT_MAX")
    case True
    then show ?thesis
      using Suc.prems lt by (subst count_good_loop.simps) (simp add: dr)
  next
    case False
    let ?c = "if str ! it = d then c + 1 else c"
    have "count_good_loop h p d it c = count_good_loop h p d (it + 1) ?c"
      using Suc.prems lt False by (subst count_good_loop.simps) auto
    also have "\<dots> =
      (if INT_MAX < ?c + int (count_list (drop (it + 1) str) d) then Inl SignedOverflow
       else Inr (?c + int (count_list (drop (it + 1) str) d), h))"
      using Suc.hyps(2) Suc.prems lt False by (intro Suc.hyps(1)) auto
    finally show ?thesis
      by (simp add: dr)
  qed
qed

lemma count_bad_spec:
  "deref h p = Some str \<Longrightarrow>
   count_bad h p d =
     (if INT_MAX < int (count_list str d) then Inl SignedOverflow
      else Inr (int (count_list str d), h[p := starred d str]))"
  using count_bad_loop_spec [of h p str 0 0 d] by (simp add: count_bad_def INT_MAX_def)

lemma count_good_spec:
  "deref h p = Some str \<Longrightarrow>
   count_good h p d =
     (if INT_MAX < int (count_list str d) then Inl SignedOverflow
      else Inr (int (count_list str d), h))"
  using count_good_loop_spec [of h p str 0 0 d] by (simp add: count_good_def INT_MAX_def)

lemma count_list_replicate: "count_list (replicate n x) x = n"
  by (induction n) simp_all


text \<open>
  C4, as the code has it. For every heap \<open>h\<close> in which the pointer \<open>s\<close> points to a
  string \<open>str\<close> that holds at most \<open>INT_MAX\<close> occurrences of \<open>d\<close>, \<open>count_bad\<close>
  returns the number of occurrences of \<open>d\<close> in \<open>str\<close>, and the heap in which the
  pointed-to string, the caller's own, has every occurrence overwritten by \<^verbatim>\<open>'*'\<close>.
  The bound is needed: the count is an \<^verbatim>\<open>int\<close>.
\<close>

theorem count_bad_counts_and_overwrites:
  "deref h s = Some str \<Longrightarrow> int (count_list str d) \<le> INT_MAX \<Longrightarrow>
   count_bad h s d = Inr (int (count_list str d), h[s := starred d str])"
  by (simp add: count_bad_spec)

text \<open>The call of \<^verbatim>\<open>mutation()\<close>: three \<^verbatim>\<open>'l'\<close>s, and the string the essay prints.\<close>

theorem count_bad_counts_and_overwrites_witness:
  "deref [''Hello shared world!''] 0 = Some ''Hello shared world!''
   \<and> int (count_list ''Hello shared world!'' (CHR ''l'')) \<le> INT_MAX
   \<and> count_bad [''Hello shared world!''] 0 (CHR ''l'') = Inr (3, [''He**o shared wor*d!''])"
  using count_bad_counts_and_overwrites
    [of "[''Hello shared world!'']" 0 "''Hello shared world!''" "CHR ''l''"]
  by (simp add: deref_def INT_MAX_def starred_def)

text \<open>
  C4 as stated, for every string, fails: on a string of \<open>2\<^sup>3\<^sup>1\<close> characters
  \<^verbatim>\<open>'l'\<close> the count cannot be returned in an \<^verbatim>\<open>int\<close>; the last \<^verbatim>\<open>count += 1\<close>
  overflows.
\<close>

theorem count_bad_overflow_counterexample:
  "count_bad [replicate 2147483648 (CHR ''l'')] 0 (CHR ''l'') = Inl SignedOverflow"
proof -
  have "deref [replicate 2147483648 (CHR ''l'')] 0 = Some (replicate 2147483648 (CHR ''l''))"
    by (simp add: deref_def)
  then show ?thesis
    by (simp only: count_bad_spec count_list_replicate INT_MAX_def) simp
qed

text \<open>
  C9, as the code has it. Let the reference \<open>a\<close> point to a string \<open>str\<close> that holds
  at most \<open>INT_MAX\<close> occurrences of \<open>d\<close>, and let \<open>p\<close> be a fresh shared pointer to a
  copy of \<open>str\<close>. Then \<open>count_good\<close> on \<open>a\<close> returns the number of occurrences with
  the heap \<open>h\<close> exactly as it was, and \<open>count_bad\<close> on \<open>p\<close> returns the same number
  (and overwrites the copy, not \<open>str\<close>). The bound is needed: the count is an
  \<^verbatim>\<open>int\<close>.
\<close>

theorem count_good_agrees_with_count_bad:
  "deref h a = Some str \<Longrightarrow> int (count_list str d) \<le> INT_MAX \<Longrightarrow>
   make_shared h str = (p, h1) \<Longrightarrow>
     count_good h a d = Inr (int (count_list str d), h)
     \<and> count_bad h1 p d = Inr (int (count_list str d), h1[p := starred d str])
     \<and> deref (h1[p := starred d str]) a = Some str"
proof -
  assume a: "deref h a = Some str" and b: "int (count_list str d) \<le> INT_MAX"
    and m: "make_shared h str = (p, h1)"
  from m have p: "p = length h" "h1 = h @ [str]"
    by (auto simp: make_shared_def)
  then have "deref h1 p = Some str"
    by (simp add: deref_def)
  moreover from a p have "deref (h1[p := starred d str]) a = Some str"
    by (auto simp: deref_def nth_append split: if_splits)
  ultimately show ?thesis
    using a b by (simp add: count_bad_spec count_good_spec)
qed

text \<open>The string of \<^verbatim>\<open>mutation()\<close>, counted through a reference and through a copy.\<close>

theorem count_good_agrees_with_count_bad_witness:
  "deref [''Hello shared world!''] 0 = Some ''Hello shared world!''
   \<and> int (count_list ''Hello shared world!'' (CHR ''l'')) \<le> INT_MAX
   \<and> make_shared [''Hello shared world!''] ''Hello shared world!''
       = (1, [''Hello shared world!'', ''Hello shared world!''])
   \<and> count_good [''Hello shared world!''] 0 (CHR ''l'') = Inr (3, [''Hello shared world!''])
   \<and> count_bad [''Hello shared world!'', ''Hello shared world!''] 1 (CHR ''l'')
       = Inr (3, [''Hello shared world!'', ''He**o shared wor*d!''])"
  using count_good_agrees_with_count_bad
    [of "[''Hello shared world!'']" 0 "''Hello shared world!''" "CHR ''l''" 1
        "[''Hello shared world!'', ''Hello shared world!'']"]
  by (simp add: deref_def make_shared_def INT_MAX_def starred_def)

text \<open>
  C9 as stated, for every string, fails: on a string of 2147483648 characters
  \<^verbatim>\<open>'l'\<close>, \<open>count_good\<close> returns no count; its last \<^verbatim>\<open>count += 1\<close> overflows the
  \<^verbatim>\<open>int\<close>.
\<close>

theorem count_good_overflow_counterexample:
  "count_good [replicate 2147483648 (CHR ''l'')] 0 (CHR ''l'') = Inl SignedOverflow"
proof -
  have "deref [replicate 2147483648 (CHR ''l'')] 0 = Some (replicate 2147483648 (CHR ''l''))"
    by (simp add: deref_def)
  then show ?thesis
    by (simp only: count_good_spec count_list_replicate INT_MAX_def) simp
qed

section \<open>The NaiveFile block, step by step\<close>

lemma lowest_free_SomeD: "lowest_free w = Some d \<Longrightarrow> 0 \<le> d \<and> fdt w d = None"
  by (auto simp: lowest_free_def find_Some_iff)

lemma sys_open_ok:
  "fs w path = Some bytes \<Longrightarrow> lowest_free w = Some d \<Longrightarrow>
   sys_open w path = (d, w\<lparr>fdt := (fdt w)(d \<mapsto> bytes), calls := calls w @ [Open path d]\<rparr>)"
  by (simp add: sys_open_def)

lemma sys_close_open:
  "0 \<le> d \<Longrightarrow> fdt w d = Some b \<Longrightarrow>
   sys_close w d = (0, w\<lparr>fdt := (fdt w)(d := None), calls := calls w @ [Close d 0]\<rparr>)"
  by (simp add: sys_close_def)

lemma sys_close_bad:
  "fdt w d = None \<Longrightarrow>
   sys_close w d = (- 1, w\<lparr>errno := EBADF, calls := calls w @ [Close d (- 1)]\<rparr>)"
  by (simp add: sys_close_def)

lemma sys_read_open:
  "0 \<le> d \<Longrightarrow> fdt w d = Some b \<Longrightarrow>
   sys_read w d k = (int (min (length b) k), take k b,
      w\<lparr>fdt := (fdt w)(d \<mapsto> drop k b), calls := calls w @ [Read d (int (min (length b) k))]\<rparr>)"
  by (simp add: sys_read_def)

lemma NaiveFile_dtor_open:
  "0 \<le> NaiveFile.fd n \<Longrightarrow> fdt w (NaiveFile.fd n) = Some b \<Longrightarrow>
   NaiveFile_dtor w n =
     w\<lparr>fdt := (fdt w)(NaiveFile.fd n := None),
       calls := calls w @ [Close (NaiveFile.fd n) 0],
       console := console w @
         [(Stdout, ''(fd '' @ show_int (NaiveFile.fd n) @ '') ~NaiveFile closing\<newline>'')]\<rparr>"
  by (simp add: NaiveFile_dtor_def NaiveFile_dtor_on_def sys_close_open printf_def)

lemma NaiveFile_dtor_bad:
  "0 \<le> NaiveFile.fd n \<Longrightarrow> fdt w (NaiveFile.fd n) = None \<Longrightarrow>
   NaiveFile_dtor w n =
     w\<lparr>errno := EBADF,
       calls := calls w @ [Close (NaiveFile.fd n) (- 1)],
       console := console w @
         [(Stdout, ''(fd '' @ show_int (NaiveFile.fd n) @ '') ~NaiveFile closing\<newline>''),
          (Stderr, ''  (fd '' @ show_int (NaiveFile.fd n) @ '') Couldn't close file: ''
                     @ quoted ''Bad file descriptor'' @ ''\<newline>'')]\<rparr>"
  by (simp add: NaiveFile_dtor_def NaiveFile_dtor_on_def sys_close_bad printf_def fprintf_stderr_def)


lemma take_filled_buf:
  "take (min (length b) k) (filled_buf k (take k b)) = take k b"
  by (simp add: filled_buf_def min_def)

lemma NaiveFile_read_1024_open:
  "0 \<le> NaiveFile.fd n \<Longrightarrow> fdt w (NaiveFile.fd n) = Some b \<Longrightarrow>
   NaiveFile_read_1024 w n =
     (take 1024 b,
      w\<lparr>fdt := (fdt w)(NaiveFile.fd n \<mapsto> drop 1024 b),
        calls := calls w @ [Read (NaiveFile.fd n) (int (min (length b) 1024))]\<rparr>)"
proof -
  assume a: "0 \<le> NaiveFile.fd n" "fdt w (NaiveFile.fd n) = Some b"
  have "int (min (length b) 1024) \<le> 0 \<Longrightarrow> take 1024 b = []"
    by (cases b) simp_all
  moreover have "take (nat (int (min (length b) 1024))) (filled_buf 1024 (take 1024 b)) = take 1024 b"
    using take_filled_buf [of b 1024] by simp
  ultimately show ?thesis
    using a by (auto simp add: NaiveFile_read_1024_def NaiveFile_read_1024_on_def sys_read_open Let_def)
qed

lemma accidental_copy_open:
  "0 \<le> NaiveFile.fd n \<Longrightarrow> fdt w (NaiveFile.fd n) = Some b \<Longrightarrow>
   accidental_copy w n =
     w\<lparr>fdt := (fdt w)(NaiveFile.fd n := None),
       calls := calls w @ [Read (NaiveFile.fd n) (int (min (length b) 1024)), Close (NaiveFile.fd n) 0],
       console := console w @
         [(Stdout, if 1024 \<le> length b then ''File is bigger than 1KB\<newline>''
                   else ''File is '' @ dec (length b) @ '' bytes long\<newline>''),
          (Stdout, ''(fd '' @ show_int (NaiveFile.fd n) @ '') ~NaiveFile closing\<newline>'')]\<rparr>"
proof -
  assume a: "0 \<le> NaiveFile.fd n" "fdt w (NaiveFile.fd n) = Some b"
  let ?w1 = "w\<lparr>fdt := (fdt w)(NaiveFile.fd n \<mapsto> drop 1024 b),
        calls := calls w @ [Read (NaiveFile.fd n) (int (min (length b) 1024))]\<rparr>"
  let ?line = "if 1024 \<le> length b then ''File is bigger than 1KB\<newline>''
                   else ''File is '' @ dec (length b) @ '' bytes long\<newline>''"
  have "accidental_copy w n = NaiveFile_dtor (printf ?w1 ?line) n"
    using a by (simp add: accidental_copy_def accidental_copy_on_def NaiveFile_read_1024_def [symmetric]
        NaiveFile_dtor_def [symmetric] NaiveFile_read_1024_open min_def)
  also have "\<dots> = (printf ?w1 ?line)\<lparr>fdt := (fdt (printf ?w1 ?line))(NaiveFile.fd n := None),
       calls := calls (printf ?w1 ?line) @ [Close (NaiveFile.fd n) 0],
       console := console (printf ?w1 ?line) @
         [(Stdout, ''(fd '' @ show_int (NaiveFile.fd n) @ '') ~NaiveFile closing\<newline>'')]\<rparr>"
    using a by (intro NaiveFile_dtor_open [where b = "drop 1024 b"]) simp_all
  also have "\<dots> = w\<lparr>fdt := (fdt w)(NaiveFile.fd n := None),
       calls := calls w @ [Read (NaiveFile.fd n) (int (min (length b) 1024)), Close (NaiveFile.fd n) 0],
       console := console w @ [(Stdout, ?line),
          (Stdout, ''(fd '' @ show_int (NaiveFile.fd n) @ '') ~NaiveFile closing\<newline>'')]\<rparr>"
    by (simp add: printf_def)
  finally show ?thesis .
qed


lemma NaiveFile_ctor_ok:
  "fs w path = Some bytes \<Longrightarrow> lowest_free w = Some d \<Longrightarrow>
   NaiveFile_ctor w path =
     (\<lparr>NaiveFile.fd = d\<rparr>,
      w\<lparr>fdt := (fdt w)(d \<mapsto> bytes), calls := calls w @ [Open path d],
        console := console w @ [(Stdout, ''(fd '' @ show_int d @ '') open '' @ path @ ''\<newline>'')]\<rparr>)"
  by (simp add: NaiveFile_ctor_def NaiveFile_ctor_on_def sys_open_ok printf_def)

lemma naive_block_ok:
  assumes "fs w filename = Some bytes" and "lowest_free w = Some d"
  shows "naive_block w filename =
    (w\<lparr>errno := EBADF,
       calls := calls w @ [Open filename d, Read d (int (min (length bytes) 1024)),
                  Close d 0, Close d (- 1), Close d (- 1)],
       console := console w @
           [(Stdout, ''(fd '' @ show_int d @ '') open '' @ filename @ ''\<newline>''),
            (Stdout, if 1024 \<le> length bytes then ''File is bigger than 1KB\<newline>''
                     else ''File is '' @ dec (length bytes) @ '' bytes long\<newline>''),
            (Stdout, ''(fd '' @ show_int d @ '') ~NaiveFile closing\<newline>''),
            (Stdout, ''(fd '' @ show_int d @ '') ~NaiveFile closing\<newline>''),
            (Stderr, ''  (fd '' @ show_int d @ '') Couldn't close file: ''
                     @ quoted ''Bad file descriptor'' @ ''\<newline>''),
            (Stdout, ''(fd '' @ show_int d @ '') ~NaiveFile closing\<newline>''),
            (Stderr, ''  (fd '' @ show_int d @ '') Couldn't close file: ''
                     @ quoted ''Bad file descriptor'' @ ''\<newline>'')]\<rparr>,
     [[\<lparr>NaiveFile.fd = d\<rparr>], [\<lparr>NaiveFile.fd = d\<rparr>, \<lparr>NaiveFile.fd = d\<rparr>], [\<lparr>NaiveFile.fd = d\<rparr>],
      [\<lparr>NaiveFile.fd = d\<rparr>, \<lparr>NaiveFile.fd = d\<rparr>], [\<lparr>NaiveFile.fd = d\<rparr>], []])"
proof -
  from assms(2) have d: "0 \<le> d" "fdt w d = None"
    by (auto dest: lowest_free_SomeD)
  then have idem: "(fdt w)(d := None) = fdt w"
    by (simp add: fun_upd_idem)
  let ?nf = "\<lparr>NaiveFile.fd = d\<rparr>"
  let ?open = "(Stdout, ''(fd '' @ show_int d @ '') open '' @ filename @ ''\<newline>'')"
  let ?size = "(Stdout, if 1024 \<le> length bytes then ''File is bigger than 1KB\<newline>''
                     else ''File is '' @ dec (length bytes) @ '' bytes long\<newline>'')"
  let ?closing = "(Stdout, ''(fd '' @ show_int d @ '') ~NaiveFile closing\<newline>'')"
  let ?failed = "(Stderr, ''  (fd '' @ show_int d @ '') Couldn't close file: ''
                     @ quoted ''Bad file descriptor'' @ ''\<newline>'')"
  let ?w1 = "w\<lparr>fdt := (fdt w)(d \<mapsto> bytes), calls := calls w @ [Open filename d],
        console := console w @ [?open]\<rparr>"
  let ?w2 = "w\<lparr>calls := calls w @ [Open filename d, Read d (int (min (length bytes) 1024)), Close d 0],
        console := console w @ [?open, ?size, ?closing]\<rparr>"
  let ?w3 = "w\<lparr>errno := EBADF,
        calls := calls w @ [Open filename d, Read d (int (min (length bytes) 1024)), Close d 0, Close d (- 1)],
        console := console w @ [?open, ?size, ?closing, ?closing, ?failed]\<rparr>"
  let ?w4 = "w\<lparr>errno := EBADF,
        calls := calls w @ [Open filename d, Read d (int (min (length bytes) 1024)), Close d 0,
                   Close d (- 1), Close d (- 1)],
        console := console w @ [?open, ?size, ?closing, ?closing, ?failed, ?closing, ?failed]\<rparr>"
  have c: "NaiveFile_ctor w filename = (?nf, ?w1)"
    using assms by (rule NaiveFile_ctor_ok)
  have a: "accidental_copy ?w1 ?nf = ?w2"
    using d by (subst accidental_copy_open [where b = bytes]) (simp_all add: idem)
  have d1: "NaiveFile_dtor ?w2 ?nf = ?w3"
    using d by (subst NaiveFile_dtor_bad) simp_all
  have d2: "NaiveFile_dtor ?w3 ?nf = ?w4"
    using d by (subst NaiveFile_dtor_bad) simp_all
  show ?thesis
    unfolding naive_block_def c by (simp only: Let_def prod.case a d1 d2)
qed

section \<open>The blocks of \<^verbatim>\<open>main\<close>\<close>

lemma sys_open_nonnegD:
  "0 \<le> fst (sys_open w path) \<Longrightarrow>
   \<exists>bytes. fs w path = Some bytes \<and> lowest_free w = Some (fst (sys_open w path))"
  by (auto simp: sys_open_def split: option.splits)

lemma SafeFile_dtor_open:
  "0 \<le> SafeFile.fd n \<Longrightarrow> fdt w (SafeFile.fd n) = Some b \<Longrightarrow>
   SafeFile_dtor w n =
     w\<lparr>fdt := (fdt w)(SafeFile.fd n := None),
       calls := calls w @ [Close (SafeFile.fd n) 0],
       console := console w @ [(Stdout, ''~SafeFile closing file\<newline>'')]\<rparr>"
  by (simp add: SafeFile_dtor_def SafeFile_dtor_on_def sys_close_open printf_def)

lemma FileWrapper_dtor_open:
  "0 \<le> FileWrapper.fd n \<Longrightarrow> fdt w (FileWrapper.fd n) = Some b \<Longrightarrow>
   FileWrapper_dtor w n =
     w\<lparr>fdt := (fdt w)(FileWrapper.fd n := None),
       calls := calls w @ [Close (FileWrapper.fd n) 0]\<rparr>"
  by (simp add: FileWrapper_dtor_def FileWrapper_dtor_on_def sys_close_open)

lemma safe_block_ok:
  assumes "fs w filename = Some bytes" and "lowest_free w = Some d"
  shows "safe_block w filename =
    (w\<lparr>calls := calls w @ [Open filename d, Close d 0],
       console := console w @ [(Stdout, ''~SafeFile closing file\<newline>'')]\<rparr>,
     [[\<lparr>SafeFile.fd = d\<rparr>], []])"
proof -
  from assms(2) have d: "0 \<le> d" "fdt w d = None"
    by (auto dest: lowest_free_SomeD)
  then have idem: "(fdt w)(d := None) = fdt w"
    by (simp add: fun_upd_idem)
  let ?w1 = "w\<lparr>fdt := (fdt w)(d \<mapsto> bytes), calls := calls w @ [Open filename d]\<rparr>"
  have c: "SafeFile_ctor w filename = (\<lparr>SafeFile.fd = d\<rparr>, ?w1)"
    using assms by (simp add: SafeFile_ctor_def SafeFile_ctor_on_def sys_open_ok)
  have "SafeFile_dtor ?w1 \<lparr>SafeFile.fd = d\<rparr> =
      w\<lparr>calls := calls w @ [Open filename d, Close d 0],
       console := console w @ [(Stdout, ''~SafeFile closing file\<newline>'')]\<rparr>"
    using d by (subst SafeFile_dtor_open [where b = bytes]) (simp_all add: idem)
  then show ?thesis
    unfolding safe_block_def c by (simp only: Let_def prod.case)
qed

lemma final_block_ok:
  assumes "fs w filename = Some bytes" and "lowest_free w = Some d"
  shows "final_block w filename =
    (w\<lparr>calls := calls w @ [Open filename d, Close d 0]\<rparr>, [[\<lparr>FileWrapper.fd = d\<rparr>], []])"
proof -
  from assms(2) have d: "0 \<le> d" "fdt w d = None"
    by (auto dest: lowest_free_SomeD)
  then have idem: "(fdt w)(d := None) = fdt w"
    by (simp add: fun_upd_idem)
  let ?w1 = "w\<lparr>fdt := (fdt w)(d \<mapsto> bytes), calls := calls w @ [Open filename d]\<rparr>"
  have c: "FileWrapper_ctor w filename = (\<lparr>FileWrapper.fd = d\<rparr>, ?w1)"
    using assms by (simp add: FileWrapper_ctor_def FileWrapper_ctor_on_def sys_open_ok)
  have "FileWrapper_dtor ?w1 \<lparr>FileWrapper.fd = d\<rparr> =
      w\<lparr>calls := calls w @ [Open filename d, Close d 0]\<rparr>"
    using d by (subst FileWrapper_dtor_open [where b = bytes]) (simp_all add: idem)
  then show ?thesis
    unfolding final_block_def c by (simp only: Let_def prod.case)
qed

lemma w0_open: "fs w0 ''main.cpp'' = Some ''int main() {}''" "lowest_free w0 = Some 3"
  by (simp_all add: w0_def lowest_free_def upt_rec)

lemma w0_sys_open: "fst (sys_open w0 ''main.cpp'') = 3"
  by (simp add: sys_open_ok [OF w0_open])

text \<open>
  C1, as the code has it. In a run of the example in which \<^verbatim>\<open>open\<close> succeeds with the
  descriptor \<open>d\<close>: the SafeFile block and the FileWrapper block call \<^verbatim>\<open>close\<close> once
  each, on \<open>d\<close>; the NaiveFile block calls \<^verbatim>\<open>close\<close> three times, each time on \<open>d\<close>
  (for the by-value parameter of \<open>accidental_copy\<close>, for \<open>file2\<close> and for
  \<open>naive_file\<close>, in this order).
\<close>

theorem example_descriptors_closed:
  "fst (sys_open w filename) = d \<Longrightarrow> 0 \<le> d \<Longrightarrow>
     close_fds (calls (fst (safe_block w filename))) = close_fds (calls w) @ [d]
   \<and> close_fds (calls (fst (final_block w filename))) = close_fds (calls w) @ [d]
   \<and> close_fds (calls (fst (naive_block w filename))) = close_fds (calls w) @ [d, d, d]"
proof -
  assume "fst (sys_open w filename) = d" and "0 \<le> d"
  then obtain bytes where "fs w filename = Some bytes" "lowest_free w = Some d"
    using sys_open_nonnegD [of w filename] by auto
  then show ?thesis
    by (simp add: safe_block_ok final_block_ok naive_block_ok close_fds_append)
qed

text \<open>The run from the shell: \<^verbatim>\<open>open\<close> returns 3 in each block.\<close>

theorem example_descriptors_closed_witness:
  "fst (sys_open w0 ''main.cpp'') = 3 \<and> (0 :: int) \<le> 3
   \<and> close_fds (calls (fst (safe_block w0 ''main.cpp''))) = [3]
   \<and> close_fds (calls (fst (final_block w0 ''main.cpp''))) = [3]
   \<and> close_fds (calls (fst (naive_block w0 ''main.cpp''))) = [3, 3, 3]"
  using example_descriptors_closed [of w0 "''main.cpp''" 3] w0_sys_open
  by (simp add: w0_def)

text \<open>
  C1 as stated, exactly one \<^verbatim>\<open>close\<close> per opened descriptor, fails in the NaiveFile
  block: the descriptor 3 it opens is the argument of three calls of \<^verbatim>\<open>close\<close>.
\<close>

theorem naive_descriptor_closed_thrice_counterexample:
  "fst (sys_open w0 ''main.cpp'') = 3
   \<and> count_list (close_fds (calls (fst (naive_block w0 ''main.cpp'')))) 3 = 3"
  by (simp add: w0_sys_open naive_block_ok [OF w0_open] close_fds_append) (simp add: w0_def)

section \<open>Moving a FileWrapper\<close>

text \<open>
  C3. Let \<open>wrapper\<close>, the source, be an object other than the destination \<open>this\<close>.
  Move construction of \<open>this\<close> from \<open>wrapper\<close> (on any storage), and move assignment
  to the object \<open>this\<close> from \<open>wrapper\<close>, leave \<open>this\<close> with the descriptor
  \<open>wrapper\<close> had and \<open>wrapper\<close> with \<open>fd = -1\<close>, and every other object as it was.
  The destructor of the moved-from object, whose \<open>fd\<close> is \<open>-1\<close>, leaves the world as it
  is: it makes no call, so it does not close the descriptor.
\<close>

theorem move_transfers_descriptor:
  "(S wrapper = Some src \<longrightarrow> this \<noteq> wrapper \<longrightarrow>
      FileWrapper_move_ctor S this wrapper =
        Some (S(this \<mapsto> \<lparr>FileWrapper.fd = FileWrapper.fd src\<rparr>,
                wrapper \<mapsto> src\<lparr>FileWrapper.fd := - 1\<rparr>)))
   \<and> (S this = Some dst \<longrightarrow> S wrapper = Some src \<longrightarrow> this \<noteq> wrapper \<longrightarrow>
      FileWrapper_move_assign S this wrapper =
        Some (S(this \<mapsto> dst\<lparr>FileWrapper.fd := FileWrapper.fd src\<rparr>,
                wrapper \<mapsto> src\<lparr>FileWrapper.fd := - 1\<rparr>)))
   \<and> FileWrapper_dtor w (src\<lparr>FileWrapper.fd := - 1\<rparr>) = w"
  by (auto simp: FileWrapper_move_ctor_def FileWrapper_move_assign_def FileWrapper_dtor_def FileWrapper_dtor_on_def Let_def)

text \<open>
  Two objects, at addresses 0 and 1; the first holds descriptor 3 and is moved from: by
  construction on fresh storage at address 2, by construction on the storage of the
  object at address 1, and by assignment to the object at address 1.
\<close>

theorem move_transfers_descriptor_witness:
  "FileWrapper_move_ctor [0 \<mapsto> \<lparr>FileWrapper.fd = 3\<rparr>, 1 \<mapsto> \<lparr>FileWrapper.fd = 4\<rparr>] 2 0
     = Some [0 \<mapsto> \<lparr>FileWrapper.fd = - 1\<rparr>, 1 \<mapsto> \<lparr>FileWrapper.fd = 4\<rparr>, 2 \<mapsto> \<lparr>FileWrapper.fd = 3\<rparr>]
   \<and> FileWrapper_move_ctor [0 \<mapsto> \<lparr>FileWrapper.fd = 3\<rparr>, 1 \<mapsto> \<lparr>FileWrapper.fd = 4\<rparr>] 1 0
     = Some [0 \<mapsto> \<lparr>FileWrapper.fd = - 1\<rparr>, 1 \<mapsto> \<lparr>FileWrapper.fd = 3\<rparr>]
   \<and> FileWrapper_move_assign [0 \<mapsto> \<lparr>FileWrapper.fd = 3\<rparr>, 1 \<mapsto> \<lparr>FileWrapper.fd = 4\<rparr>] 1 0
     = Some [0 \<mapsto> \<lparr>FileWrapper.fd = - 1\<rparr>, 1 \<mapsto> \<lparr>FileWrapper.fd = 3\<rparr>]
   \<and> FileWrapper_dtor w0 \<lparr>FileWrapper.fd = - 1\<rparr> = w0"
  using move_transfers_descriptor
    [of "[0 \<mapsto> \<lparr>FileWrapper.fd = 3\<rparr>, 1 \<mapsto> \<lparr>FileWrapper.fd = 4\<rparr>]" 0
        "\<lparr>FileWrapper.fd = 3\<rparr>" 2 _ w0]
    move_transfers_descriptor
    [of "[0 \<mapsto> \<lparr>FileWrapper.fd = 3\<rparr>, 1 \<mapsto> \<lparr>FileWrapper.fd = 4\<rparr>]" 0
        "\<lparr>FileWrapper.fd = 3\<rparr>" 1 "\<lparr>FileWrapper.fd = 4\<rparr>" w0]
  by (auto simp: fun_upd_twist)

text \<open>
  The assignment has no guard for \<^verbatim>\<open>w = std::move(w)\<close>, where source and destination
  are one object: it is left with \<open>fd = -1\<close>, and the descriptor it held is held by no
  object any more.
\<close>

lemma self_move_assign_loses_descriptor:
  "FileWrapper_move_assign [0 \<mapsto> \<lparr>FileWrapper.fd = 3\<rparr>] 0 0
     = Some [0 \<mapsto> \<lparr>FileWrapper.fd = - 1\<rparr>]"
  by (simp add: FileWrapper_move_assign_def Let_def)

section \<open>ConfigWatcher\<close>

lemma update_config_times_spec:
  "deref h (config this) = Some c \<Longrightarrow> port c + int k \<le> INT_MAX \<Longrightarrow>
   update_config_times k h this = Inr (h[config this := c\<lparr>port := port c + int k\<rparr>])"
proof (induction k arbitrary: h c)
  case 0
  then show ?case by (auto dest!: deref_SomeD)
next
  case (Suc k)
  let ?c = "c\<lparr>port := port c + 1\<rparr>"
  let ?h = "h[config this := ?c]"
  from Suc.prems have u: "update_config h this = Inr ?h"
    by (simp add: update_config_def)
  from Suc.prems(1) have "deref ?h (config this) = Some ?c"
    by (auto dest!: deref_SomeD simp: deref_update_same)
  moreover have "port ?c + int k \<le> INT_MAX"
    using Suc.prems(2) by simp
  ultimately have "update_config_times k ?h this
      = Inr (?h[config this := ?c\<lparr>port := port ?c + int k\<rparr>])"
    by (rule Suc.IH)
  then show ?case
    using u by (simp add: add.assoc)
qed

text \<open>
  C10, as the code has it. Let the watcher's pointer point to the configuration \<open>c\<close>,
  with a port below \<open>INT_MAX\<close>, and let \<open>p\<close> be a pointer that \<open>get_config\<close> returned.
  Then \<open>p\<close> is the watcher's own pointer, and after \<open>update_config\<close> the configuration
  read through \<open>p\<close> has the port of \<open>c\<close> plus 1, and the hostname and the url of \<open>c\<close>.
\<close>

theorem update_config_increments_port:
  "deref h (config this) = Some c \<Longrightarrow> port c < INT_MAX \<Longrightarrow> p = get_config this \<Longrightarrow>
   \<exists>h1 c1. update_config h this = Inr h1 \<and> deref h1 p = Some c1
     \<and> port c1 = port c + 1 \<and> hostname c1 = hostname c \<and> url c1 = url c
     \<and> p = config this"
  by (auto simp: update_config_def get_config_def deref_update_same dest!: deref_SomeD)

text \<open>The watcher of \<^verbatim>\<open>main\<close>, right after its construction: port 80 becomes 81.\<close>

theorem update_config_increments_port_witness:
  "deref [\<lparr>hostname = ''localhost'', port = 80, url = ''/index.html''\<rparr>] (config \<lparr>config = 0\<rparr>)
     = Some \<lparr>hostname = ''localhost'', port = 80, url = ''/index.html''\<rparr>
   \<and> (80 :: int) < INT_MAX \<and> 0 = get_config \<lparr>config = 0\<rparr>
   \<and> update_config [\<lparr>hostname = ''localhost'', port = 80, url = ''/index.html''\<rparr>] \<lparr>config = 0\<rparr>
       = Inr [\<lparr>hostname = ''localhost'', port = 81, url = ''/index.html''\<rparr>]
   \<and> deref [\<lparr>hostname = ''localhost'', port = 81, url = ''/index.html''\<rparr>] 0
       = Some \<lparr>hostname = ''localhost'', port = 81, url = ''/index.html''\<rparr>"
  using update_config_increments_port
    [of "[\<lparr>hostname = ''localhost'', port = 80, url = ''/index.html''\<rparr>]" "\<lparr>config = 0\<rparr>"
        "\<lparr>hostname = ''localhost'', port = 80, url = ''/index.html''\<rparr>" 0]
  by (simp add: deref_def INT_MAX_def get_config_def update_config_def)

text \<open>
  C10 as stated, for every call, fails once the port has reached \<open>INT_MAX\<close>: the watcher
  that \<^verbatim>\<open>ConfigWatcher()\<close> constructs gets there by 2147483567 calls of
  \<open>update_config\<close>, and the next call overflows the \<^verbatim>\<open>int\<close> instead of adding 1.
\<close>

theorem update_config_overflow_counterexample:
  "ConfigWatcher_ctor []
     = (\<lparr>config = 0\<rparr>, [\<lparr>hostname = ''localhost'', port = 80, url = ''/index.html''\<rparr>])
   \<and> update_config_times 2147483567
         [\<lparr>hostname = ''localhost'', port = 80, url = ''/index.html''\<rparr>] \<lparr>config = 0\<rparr>
       = Inr [\<lparr>hostname = ''localhost'', port = 2147483647, url = ''/index.html''\<rparr>]
   \<and> update_config [\<lparr>hostname = ''localhost'', port = 2147483647, url = ''/index.html''\<rparr>]
         \<lparr>config = 0\<rparr>
       = Inl SignedOverflow"
proof -
  let ?c = "\<lparr>hostname = ''localhost'', port = 80, url = ''/index.html''\<rparr>"
  have "deref [?c] (config \<lparr>config = 0\<rparr>) = Some ?c"
    by (simp add: deref_def)
  moreover have "port ?c + int 2147483567 \<le> INT_MAX"
    by (simp add: INT_MAX_def)
  ultimately have "update_config_times 2147483567 [?c] \<lparr>config = 0\<rparr>
      = Inr ([?c][config \<lparr>config = 0\<rparr> := ?c\<lparr>port := port ?c + int 2147483567\<rparr>])"
    by (rule update_config_times_spec)
  moreover have "ConfigWatcher_ctor [] = (\<lparr>config = 0\<rparr>, [?c])"
    by (simp add: ConfigWatcher_ctor_def make_shared_def)
  moreover have
    "update_config [\<lparr>hostname = ''localhost'', port = 2147483647, url = ''/index.html''\<rparr>]
       \<lparr>config = 0\<rparr> = Inl SignedOverflow"
    by (simp add: update_config_def deref_def INT_MAX_def)
  ultimately show ?thesis by simp
qed


section \<open>Who holds a descriptor\<close>

lemma naive_block_live:
  "map (map NaiveFile.fd) (snd (naive_block w filename)) =
     (let d = fst (sys_open w filename) in [[d], [d, d], [d], [d, d], [d], []])"
  by (simp add: naive_block_def NaiveFile_ctor_def NaiveFile_ctor_on_def split_def Let_def)

lemma safe_block_live:
  "map (map SafeFile.fd) (snd (safe_block w filename)) = [[fst (sys_open w filename)], []]"
  by (simp add: safe_block_def SafeFile_ctor_def SafeFile_ctor_on_def split_def Let_def)

lemma final_block_live:
  "map (map FileWrapper.fd) (snd (final_block w filename)) = [[fst (sys_open w filename)], []]"
  by (simp add: final_block_def FileWrapper_ctor_def FileWrapper_ctor_on_def split_def Let_def)

text \<open>
  C6, as the code has it. After every step of the SafeFile block and of the FileWrapper
  block, no two live objects hold the same descriptor \<open>\<ge> 0\<close>. In the NaiveFile block
  this holds after the first, third, fifth and sixth step; after the second (the by-value
  parameter of \<open>accidental_copy\<close> is alive) and the fourth (\<open>file2\<close> is alive) it holds
  only if \<^verbatim>\<open>open\<close> failed: otherwise the copy and \<open>naive_file\<close> hold the same
  descriptor.
\<close>

theorem live_wrappers_single_owner:
  "list_all single_owner (map (map SafeFile.fd) (snd (safe_block w filename)))
   \<and> list_all single_owner (map (map FileWrapper.fd) (snd (final_block w filename)))
   \<and> map single_owner (map (map NaiveFile.fd) (snd (naive_block w filename))) =
       [True, fst (sys_open w filename) < 0, True, fst (sys_open w filename) < 0, True, True]"
  by (auto simp: safe_block_live final_block_live naive_block_live single_owner_def Let_def)

text \<open>The run from the shell: each block's objects hold descriptor 3.\<close>

theorem live_wrappers_single_owner_witness:
  "map (map SafeFile.fd) (snd (safe_block w0 ''main.cpp'')) = [[3], []]
   \<and> map (map FileWrapper.fd) (snd (final_block w0 ''main.cpp'')) = [[3], []]
   \<and> list_all single_owner [[3], []]
   \<and> map single_owner (map (map NaiveFile.fd) (snd (naive_block w0 ''main.cpp'')))
       = [True, False, True, False, True, True]"
  using live_wrappers_single_owner [of w0 "''main.cpp''"]
  by (simp add: safe_block_live final_block_live w0_sys_open single_owner_def)

text \<open>
  C6 as stated, for every example, fails in the NaiveFile block of the run from the
  shell: twice, two live objects hold descriptor 3.
\<close>

theorem naive_copies_share_descriptor_counterexample:
  "map (map NaiveFile.fd) (snd (naive_block w0 ''main.cpp'')) = [[3], [3, 3], [3], [3, 3], [3], []]
   \<and> \<not> single_owner [3, 3]"
  by (simp add: naive_block_live w0_sys_open single_owner_def)

section \<open>What the NaiveFile block prints\<close>

text \<open>
  C7, as the code has it. In a run in which \<^verbatim>\<open>open\<close> succeeds with the descriptor
  \<open>d\<close> on a file of contents \<open>bytes\<close>, the NaiveFile block prints: the line of the
  constructor; the line of \<open>accidental_copy\<close> with the size of what it read; then
  the line of the destructor three times, the second and the third each followed, on
  \<^verbatim>\<open>stderr\<close>, by the report that \<^verbatim>\<open>close\<close> failed with \<^verbatim>\<open>Bad file descriptor\<close>. Its
  calls are one \<^verbatim>\<open>open\<close>, one \<^verbatim>\<open>read\<close>, a \<^verbatim>\<open>close\<close> of \<open>d\<close> that succeeds and two
  that fail.
\<close>

theorem naive_block_output:
  "fs w filename = Some bytes \<Longrightarrow> fst (sys_open w filename) = d \<Longrightarrow> 0 \<le> d \<Longrightarrow>
   console (fst (naive_block w filename)) =
     console w @
       [(Stdout, ''(fd '' @ show_int d @ '') open '' @ filename @ ''\<newline>''),
        (Stdout, if 1024 \<le> length bytes then ''File is bigger than 1KB\<newline>''
                 else ''File is '' @ dec (length bytes) @ '' bytes long\<newline>''),
        (Stdout, ''(fd '' @ show_int d @ '') ~NaiveFile closing\<newline>''),
        (Stdout, ''(fd '' @ show_int d @ '') ~NaiveFile closing\<newline>''),
        (Stderr, ''  (fd '' @ show_int d @ '') Couldn't close file: ''
                 @ quoted ''Bad file descriptor'' @ ''\<newline>''),
        (Stdout, ''(fd '' @ show_int d @ '') ~NaiveFile closing\<newline>''),
        (Stderr, ''  (fd '' @ show_int d @ '') Couldn't close file: ''
                 @ quoted ''Bad file descriptor'' @ ''\<newline>'')]
   \<and> calls (fst (naive_block w filename)) =
     calls w @ [Open filename d, Read d (int (min (length bytes) 1024)),
                Close d 0, Close d (- 1), Close d (- 1)]"
proof -
  assume b: "fs w filename = Some bytes" and "fst (sys_open w filename) = d" and "0 \<le> d"
  then have "lowest_free w = Some d"
    using sys_open_nonnegD [of w filename] by auto
  with b show ?thesis
    by (simp add: naive_block_ok)
qed

text \<open>The run from the shell.\<close>

theorem naive_block_output_witness:
  "fs w0 ''main.cpp'' = Some ''int main() {}'' \<and> fst (sys_open w0 ''main.cpp'') = 3 \<and> (0 :: int) \<le> 3
   \<and> console (fst (naive_block w0 ''main.cpp'')) =
       [(Stdout, ''(fd 3) open main.cpp\<newline>''),
        (Stdout, ''File is 13 bytes long\<newline>''),
        (Stdout, ''(fd 3) ~NaiveFile closing\<newline>''),
        (Stdout, ''(fd 3) ~NaiveFile closing\<newline>''),
        (Stderr, ''  (fd 3) Couldn't close file: '' @ quoted ''Bad file descriptor'' @ ''\<newline>''),
        (Stdout, ''(fd 3) ~NaiveFile closing\<newline>''),
        (Stderr, ''  (fd 3) Couldn't close file: '' @ quoted ''Bad file descriptor'' @ ''\<newline>'')]
   \<and> calls (fst (naive_block w0 ''main.cpp'')) =
       [Open ''main.cpp'' 3, Read 3 13, Close 3 0, Close 3 (- 1), Close 3 (- 1)]"
  using naive_block_output [of w0 "''main.cpp''" "''int main() {}''" 3] w0_open(1) w0_sys_open
  by (simp add: show_int_def dec.simps digit_def) (simp add: w0_def)

text \<open>
  C7 as stated, exactly the documented output, fails: the block prints the documented
  lines and, between the first and the second of them, the line of \<open>accidental_copy\<close>.
\<close>

theorem naive_block_output_counterexample:
  "console (fst (naive_block w0 ''main.cpp'')) \<noteq> documented_trace"
  by (simp add: naive_block_ok [OF w0_open] documented_trace_def)



section \<open>Reading at most 1024 bytes\<close>

lemma sys_read_result:
  "(fst (sys_read w d k) = - 1 \<and> fst (snd (sys_read w d k)) = [])
   \<or> (fst (sys_read w d k) = int (length (fst (snd (sys_read w d k))))
       \<and> length (fst (snd (sys_read w d k))) \<le> k)"
  by (simp add: sys_read_def split: option.splits)

lemma take_read_buf:
  "take (nat (fst (sys_read w d k))) (filled_buf k (fst (snd (sys_read w d k))))
     = take (nat (fst (sys_read w d k))) (fst (snd (sys_read w d k)))"
  using sys_read_result [of w d k] by (auto simp: filled_buf_def)

lemma length_take_read:
  "length (take (nat (fst (sys_read w d k))) (fst (snd (sys_read w d k)))) \<le> k"
  using sys_read_result [of w d k] by auto

lemma NaiveFile_read_1024_result:
  "fst (NaiveFile_read_1024 w x) =
     (if NaiveFile.fd x < 0 \<or> fst (sys_read w (NaiveFile.fd x) 1024) \<le> 0 then []
      else take (nat (fst (sys_read w (NaiveFile.fd x) 1024)))
             (fst (snd (sys_read w (NaiveFile.fd x) 1024))))"
  by (simp add: NaiveFile_read_1024_def NaiveFile_read_1024_on_def split_def Let_def take_read_buf del: take_eq_Nil)

lemma SafeFile_read_1024_result:
  "fst (SafeFile_read_1024 w x) =
     (if SafeFile.fd x < 0 \<or> fst (sys_read w (SafeFile.fd x) 1024) \<le> 0 then []
      else take (nat (fst (sys_read w (SafeFile.fd x) 1024)))
             (fst (snd (sys_read w (SafeFile.fd x) 1024))))"
  by (simp add: SafeFile_read_1024_def SafeFile_read_1024_on_def split_def Let_def take_read_buf del: take_eq_Nil)

lemma FileWrapper_read_1024_result:
  "fst (FileWrapper_read_1024 w x) =
     (if FileWrapper.fd x < 0 \<or> fst (sys_read w (FileWrapper.fd x) 1024) \<le> 0 then []
      else take (nat (fst (sys_read w (FileWrapper.fd x) 1024)))
             (fst (snd (sys_read w (FileWrapper.fd x) 1024))))"
  by (simp add: FileWrapper_read_1024_def FileWrapper_read_1024_on_def split_def Let_def take_read_buf del: take_eq_Nil)

text \<open>
  C8. For each of the three classes and every state: \<open>read_1024\<close> returns at most 1024
  characters; it returns the empty string if \<open>fd < 0\<close> or if \<^verbatim>\<open>read\<close> returns zero or
  a negative number; otherwise it returns the first \<open>n\<close> of the bytes that
  \<^verbatim>\<open>read\<close> put into the buffer, \<open>n\<close> being what \<^verbatim>\<open>read\<close> returned.
\<close>

theorem read_1024_result:
  "length (fst (NaiveFile_read_1024 w x)) \<le> 1024
   \<and> fst (NaiveFile_read_1024 w x) =
     (if NaiveFile.fd x < 0 \<or> fst (sys_read w (NaiveFile.fd x) 1024) \<le> 0 then []
      else take (nat (fst (sys_read w (NaiveFile.fd x) 1024)))
             (fst (snd (sys_read w (NaiveFile.fd x) 1024))))
   \<and> length (fst (SafeFile_read_1024 w y)) \<le> 1024
   \<and> fst (SafeFile_read_1024 w y) =
     (if SafeFile.fd y < 0 \<or> fst (sys_read w (SafeFile.fd y) 1024) \<le> 0 then []
      else take (nat (fst (sys_read w (SafeFile.fd y) 1024)))
             (fst (snd (sys_read w (SafeFile.fd y) 1024))))
   \<and> length (fst (FileWrapper_read_1024 w z)) \<le> 1024
   \<and> fst (FileWrapper_read_1024 w z) =
     (if FileWrapper.fd z < 0 \<or> fst (sys_read w (FileWrapper.fd z) 1024) \<le> 0 then []
      else take (nat (fst (sys_read w (FileWrapper.fd z) 1024)))
             (fst (snd (sys_read w (FileWrapper.fd z) 1024))))"
proof -
  have n: "length (fst (NaiveFile_read_1024 w x)) \<le> 1024"
    unfolding NaiveFile_read_1024_result using length_take_read [of w "NaiveFile.fd x" 1024]
    by (simp del: length_take)
  have s: "length (fst (SafeFile_read_1024 w y)) \<le> 1024"
    unfolding SafeFile_read_1024_result using length_take_read [of w "SafeFile.fd y" 1024]
    by (simp del: length_take)
  have f: "length (fst (FileWrapper_read_1024 w z)) \<le> 1024"
    unfolding FileWrapper_read_1024_result using length_take_read [of w "FileWrapper.fd z" 1024]
    by (simp del: length_take)
  show ?thesis
    using n s f
    by (simp only: NaiveFile_read_1024_result SafeFile_read_1024_result
        FileWrapper_read_1024_result simp_thms)
qed


text \<open>
  A descriptor of the run from the shell is read through each class: descriptor 3 is not
  open in \<open>w0\<close>, \<open>-1\<close> is no descriptor, and after \<^verbatim>\<open>open\<close> descriptor 3 gives the
  13 bytes of the file.
\<close>

theorem read_1024_result_witness:
  "fst (NaiveFile_read_1024 w0 \<lparr>NaiveFile.fd = 3\<rparr>) = []
   \<and> fst (SafeFile_read_1024 w0 \<lparr>SafeFile.fd = - 1\<rparr>) = []
   \<and> fst (FileWrapper_read_1024 (snd (sys_open w0 ''main.cpp'')) \<lparr>FileWrapper.fd = 3\<rparr>)
       = ''int main() {}''"
  using read_1024_result [of w0 "\<lparr>NaiveFile.fd = 3\<rparr>" "\<lparr>SafeFile.fd = - 1\<rparr>"]
    read_1024_result [of "snd (sys_open w0 ''main.cpp'')" _ _ "\<lparr>FileWrapper.fd = 3\<rparr>"]
  by (simp add: sys_open_ok [OF w0_open] sys_read_def) (simp add: w0_def)

section \<open>Nothing but a failed close is reported\<close>








end
